theory Spec2Isabelle
  imports Main "HOL-Library.Word" "HOL-Library.AList" "HOL-Library.Sublist"
begin

section \<open>Values shared by server and client\<close>

text \<open>
  A \<^verbatim>\<open>json.RawMessage\<close> that was cut out of a successfully decoded envelope is the text
  of one JSON value, or is empty when the field was absent. It is modelled by the value
  it denotes: \<open>None\<close> is the empty (nil) message. Number literals are kept as text.
  Object members keep their order and may repeat a key, as on the wire.
\<close>

datatype json =
    JNull
  | JBool bool
  | JNum string
  | JStr string
  | JArr "json list"
  | JObj "(string \<times> json) list"

type_synonym RawMessage = "json option"

text \<open>A Go \<^verbatim>\<open>error\<close> is modelled by its message; \<open>None\<close> is the nil error.\<close>

type_synonym go_error = "string option"

section \<open>mcpserver: the method switch table\<close>

text \<open>
  Go maps are modelled as association lists with distinct keys, read with \<open>map_of\<close> and
  written with \<open>AList.update\<close>. The order of the list stands for the unspecified order
  in which \<^verbatim>\<open>range\<close> visits the map.
\<close>

definition Methods_init :: "(string \<times> bool) list" where
  "Methods_init =
     [(''tools.run'', True),
      (''tools.list'', True),
      (''resources.get'', True),
      (''resources.list'', True),
      (''prompts.get'', True),
      (''prompts.list'', True),
      (''server.info'', True),
      (''system.describe'', True),
      (''system.listMethods'', True),
      (''system.version'', True)]"

definition IsMethodEnabled :: "(string \<times> bool) list \<Rightarrow> string \<Rightarrow> bool" where
  "IsMethodEnabled M method =
     (case map_of M method of None \<Rightarrow> False | Some enabled \<Rightarrow> enabled)"

definition SetMethodEnabled :: "string \<Rightarrow> bool \<Rightarrow> (string \<times> bool) list \<Rightarrow> (string \<times> bool) list" where
  "SetMethodEnabled method enabled M =
     (case map_of M method of None \<Rightarrow> M | Some _ \<Rightarrow> AList.update method enabled M)"

definition ListEnabledMethods :: "(string \<times> bool) list \<Rightarrow> string list" where
  "ListEnabledMethods M = map fst (filter snd M)"

section \<open>mcpserver: tools, resources, prompts\<close>

text \<open>
  A tool handler returns the Go pair \<^verbatim>\<open>(interface{}, error)\<close>; either component may be
  nil independently of the other, so the model is a pair of options.
\<close>

record Tool =
  tool_Name :: string
  tool_Description :: string
  tool_Handler :: "RawMessage \<Rightarrow> json option \<times> go_error"

record ToolSummary =
  sum_Name :: string
  sum_Description :: string

record Resource =
  res_Name :: string
  res_Type :: string
  res_Data :: "json option"

record Prompt =
  prompt_Name :: string
  prompt_Template :: string

text \<open>
  The package-level variables of \<^verbatim>\<open>mcpserver\<close>. The registries map a name to a pointer;
  nothing in the package writes through these pointers, so the model stores the structs.
  The registration functions take the struct their (non-nil) argument points to.
\<close>

record server =
  Methods :: "(string \<times> bool) list"
  toolRegistry :: "(string \<times> Tool) list"
  resourceRegistry :: "(string \<times> Resource) list"
  promptRegistry :: "(string \<times> Prompt) list"

definition server_init :: server where
  "server_init =
     \<lparr>Methods = Methods_init, toolRegistry = [], resourceRegistry = [], promptRegistry = []\<rparr>"

definition RegisterTool :: "Tool \<Rightarrow> server \<Rightarrow> server" where
  "RegisterTool tool s = s\<lparr>toolRegistry := AList.update (tool_Name tool) tool (toolRegistry s)\<rparr>"

definition ListTools :: "server \<Rightarrow> ToolSummary list" where
  "ListTools s =
     map (\<lambda>(_, t). \<lparr>sum_Name = tool_Name t, sum_Description = tool_Description t\<rparr>) (toolRegistry s)"

definition CallToolByName :: "server \<Rightarrow> string \<Rightarrow> RawMessage \<Rightarrow> json option \<times> go_error" where
  "CallToolByName s name args =
     (case map_of (toolRegistry s) name of
        Some tool \<Rightarrow> tool_Handler tool args
      | None \<Rightarrow> (None, Some (''tool not found: '' @ name)))"

definition RegisterResource :: "Resource \<Rightarrow> server \<Rightarrow> server" where
  "RegisterResource r s = s\<lparr>resourceRegistry := AList.update (res_Name r) r (resourceRegistry s)\<rparr>"

definition GetResource :: "server \<Rightarrow> string \<Rightarrow> string + Resource" where
  "GetResource s name =
     (case map_of (resourceRegistry s) name of
        Some r \<Rightarrow> Inr r
      | None \<Rightarrow> Inl (''resource not found: '' @ name))"

definition ListResources :: "server \<Rightarrow> (string \<times> string) list list" where
  "ListResources s =
     map (\<lambda>(_, r). [(''name'', res_Name r), (''type'', res_Type r)]) (resourceRegistry s)"

definition RegisterPrompt :: "Prompt \<Rightarrow> server \<Rightarrow> server" where
  "RegisterPrompt p s = s\<lparr>promptRegistry := AList.update (prompt_Name p) p (promptRegistry s)\<rparr>"

definition GetPrompt :: "server \<Rightarrow> string \<Rightarrow> string + Prompt" where
  "GetPrompt s name =
     (case map_of (promptRegistry s) name of
        Some p \<Rightarrow> Inr p
      | None \<Rightarrow> Inl (''prompt not found: '' @ name))"

definition ListPrompts :: "server \<Rightarrow> string list" where
  "ListPrompts s = map fst (promptRegistry s)"

section \<open>mcpserver: JSON-RPC envelopes\<close>

record RPCRequest =
  req_JsonRPC :: string
  req_ID :: "64 word"
  req_Method :: string
  req_Params :: RawMessage

record RPCError =
  err_Code :: int
  err_Message :: string

text \<open>
  The values the handlers store in the \<^verbatim>\<open>Result interface{}\<close> field, one constructor
  per Go value built in the source. The field itself is \<open>rpc_result option\<close>: \<open>None\<close>
  is the nil interface, which \<^verbatim>\<open>omitempty\<close> leaves out of the encoded envelope.
\<close>

datatype rpc_result =
    ToolsMap "ToolSummary list"
  | ToolValue json
  | ResourceValue Resource
  | ResourcesMap "(string \<times> string) list list"
  | PromptValue Prompt
  | PromptsMap "string list"
  | ServerInfoMap string string "ToolSummary list"
  | DescribeMap string string "string list"
  | MethodNames "string list"
  | StringValue string

record RPCResponse =
  resp_JsonRPC :: string
  resp_ID :: "64 word"
  resp_Result :: "rpc_result option"
  resp_Error :: "RPCError option"

section \<open>encoding/json: decoding the parameter structs\<close>

text \<open>
  \<^verbatim>\<open>json.Unmarshal\<close> fills the target in place and returns an error, so the model returns
  the target as it stands afterwards together with the error. An object key selects a
  struct field when the two names are equal under simple case folding. The field names
  here are ASCII, so \<open>foldName\<close> folds what can meet an ASCII letter: ASCII letters are
  upper-cased, U+017F (bytes C5 BF) folds to \<open>S\<close> and U+212A (bytes E2 84 AA) to
  \<open>K\<close>; every other byte is kept. A value
  of the wrong kind for a field is recorded as the (first) error and decoding goes on;
  \<open>null\<close> leaves a string field as it is; a \<^verbatim>\<open>json.RawMessage\<close> field takes any value.
\<close>

definition asciiUpper :: "char \<Rightarrow> char" where
  "asciiUpper c =
     (case map_of (zip ''abcdefghijklmnopqrstuvwxyz'' ''ABCDEFGHIJKLMNOPQRSTUVWXYZ'') c of
        Some u \<Rightarrow> u
      | None \<Rightarrow> c)"

fun foldName :: "string \<Rightarrow> string" where
  "foldName [] = []"
| "foldName [c] = [asciiUpper c]"
| "foldName [c, d] =
     (if c = CHR 0xC5 \<and> d = CHR 0xBF then ''S'' else asciiUpper c # foldName [d])"
| "foldName (c # d # e # cs) =
     (if c = CHR 0xC5 \<and> d = CHR 0xBF then CHR ''S'' # foldName (e # cs)
      else if c = CHR 0xE2 \<and> d = CHR 0x84 \<and> e = CHR 0xAA then CHR ''K'' # foldName cs
      else asciiUpper c # foldName (d # e # cs))"

definition saveError :: "go_error \<Rightarrow> string \<Rightarrow> go_error" where
  "saveError saved err = (case saved of None \<Rightarrow> Some err | Some _ \<Rightarrow> saved)"

definition kind_of :: "json \<Rightarrow> string" where
  "kind_of v =
     (case v of
        JNull \<Rightarrow> ''null''
      | JBool _ \<Rightarrow> ''bool''
      | JNum _ \<Rightarrow> ''number''
      | JStr _ \<Rightarrow> ''string''
      | JArr _ \<Rightarrow> ''array''
      | JObj _ \<Rightarrow> ''object'')"

text \<open>The anonymous struct \<^verbatim>\<open>{Name string; Arguments json.RawMessage}\<close> of \<^verbatim>\<open>tools.run\<close>.\<close>

record RunParams =
  run_Name :: string
  run_Arguments :: RawMessage

fun object_RunParams :: "(string \<times> json) list \<Rightarrow> RunParams \<times> go_error \<Rightarrow> RunParams \<times> go_error" where
  "object_RunParams [] acc = acc"
| "object_RunParams ((key, v) # kvs) (p, saved) =
     (if foldName key = foldName ''name'' then
        (case v of
           JStr str \<Rightarrow> object_RunParams kvs (p\<lparr>run_Name := str\<rparr>, saved)
         | JNull \<Rightarrow> object_RunParams kvs (p, saved)
         | _ \<Rightarrow> object_RunParams kvs
                 (p, saveError saved (''json: cannot unmarshal '' @ kind_of v @ '' into Go struct field .name of type string'')))
      else if foldName key = foldName ''arguments'' then
        object_RunParams kvs (p\<lparr>run_Arguments := Some v\<rparr>, saved)
      else object_RunParams kvs (p, saved))"

definition Unmarshal_RunParams :: "RawMessage \<Rightarrow> RunParams \<times> go_error" where
  "Unmarshal_RunParams data =
     (let zero = \<lparr>run_Name = [], run_Arguments = None\<rparr> in
      case data of
        None \<Rightarrow> (zero, Some ''unexpected end of JSON input'')
      | Some JNull \<Rightarrow> (zero, None)
      | Some (JObj kvs) \<Rightarrow> object_RunParams kvs (zero, None)
      | Some v \<Rightarrow> (zero, Some (''json: cannot unmarshal '' @ kind_of v @ '' into Go value of type struct'')))"

text \<open>The anonymous struct \<^verbatim>\<open>{Name string}\<close> of \<^verbatim>\<open>resources.get\<close> and \<^verbatim>\<open>prompts.get\<close>.\<close>

fun object_NameParams :: "(string \<times> json) list \<Rightarrow> string \<times> go_error \<Rightarrow> string \<times> go_error" where
  "object_NameParams [] acc = acc"
| "object_NameParams ((key, v) # kvs) (name, saved) =
     (if foldName key = foldName ''name'' then
        (case v of
           JStr str \<Rightarrow> object_NameParams kvs (str, saved)
         | JNull \<Rightarrow> object_NameParams kvs (name, saved)
         | _ \<Rightarrow> object_NameParams kvs
                 (name, saveError saved (''json: cannot unmarshal '' @ kind_of v @ '' into Go struct field .name of type string'')))
      else object_NameParams kvs (name, saved))"

definition Unmarshal_NameParams :: "RawMessage \<Rightarrow> string \<times> go_error" where
  "Unmarshal_NameParams data =
     (case data of
        None \<Rightarrow> ([], Some ''unexpected end of JSON input'')
      | Some JNull \<Rightarrow> ([], None)
      | Some (JObj kvs) \<Rightarrow> object_NameParams kvs ([], None)
      | Some v \<Rightarrow> ([], Some (''json: cannot unmarshal '' @ kind_of v @ '' into Go value of type struct'')))"

section \<open>mcpserver: the HTTP and WebSocket handlers\<close>

definition listTools :: "server \<Rightarrow> rpc_result" where
  "listTools s = ToolsMap (ListTools s)"

definition MethodNotFound :: RPCError where
  "MethodNotFound = \<lparr>err_Code = - 32601, err_Message = ''Method not found''\<rparr>"

definition InvalidParams :: RPCError where
  "InvalidParams = \<lparr>err_Code = - 32602, err_Message = ''Invalid params''\<rparr>"

datatype http_reply =
    HttpError string nat
  | HttpJSON RPCResponse

text \<open>
  \<open>httpHandler\<close>: the body either fails to decode into an envelope (\<open>Inl\<close> the decoder's
  message: status 400, no envelope) or is a request. A \<^verbatim>\<open>Result\<close> that is set to a nil
  \<^verbatim>\<open>interface{}\<close> stays \<open>None\<close>.
\<close>

definition httpHandler :: "server \<Rightarrow> string + RPCRequest \<Rightarrow> http_reply" where
  "httpHandler s body =
     (case body of
        Inl err \<Rightarrow> HttpError err 400
      | Inr req \<Rightarrow>
          (let resp = \<lparr>resp_JsonRPC = ''2.0'', resp_ID = req_ID req,
                        resp_Result = None, resp_Error = None\<rparr>
           in HttpJSON
             (if req_Method req = ''tools.list'' then resp\<lparr>resp_Result := Some (listTools s)\<rparr>
              else if req_Method req = ''tools.run'' then
                (case Unmarshal_RunParams (req_Params req) of
                   (params, Some err) \<Rightarrow> resp\<lparr>resp_Error := Some InvalidParams\<rparr>
                 | (params, None) \<Rightarrow>
                     (case CallToolByName s (run_Name params) (run_Arguments params) of
                        (result, Some err) \<Rightarrow>
                          resp\<lparr>resp_Error := Some \<lparr>err_Code = - 32601, err_Message = err\<rparr>\<rparr>
                      | (result, None) \<Rightarrow> resp\<lparr>resp_Result := map_option ToolValue result\<rparr>))
              else if req_Method req = ''resources.get'' then
                (case Unmarshal_NameParams (req_Params req) of
                   (name, Some err) \<Rightarrow> resp\<lparr>resp_Error := Some InvalidParams\<rparr>
                 | (name, None) \<Rightarrow>
                     (case GetResource s name of
                        Inl err \<Rightarrow> resp\<lparr>resp_Error := Some \<lparr>err_Code = - 32601, err_Message = err\<rparr>\<rparr>
                      | Inr r \<Rightarrow> resp\<lparr>resp_Result := Some (ResourceValue r)\<rparr>))
              else if req_Method req = ''resources.list'' then
                resp\<lparr>resp_Result := Some (ResourcesMap (ListResources s))\<rparr>
              else if req_Method req = ''prompts.get'' then
                (case Unmarshal_NameParams (req_Params req) of
                   (name, Some err) \<Rightarrow> resp\<lparr>resp_Error := Some InvalidParams\<rparr>
                 | (name, None) \<Rightarrow>
                     (case GetPrompt s name of
                        Inl err \<Rightarrow> resp\<lparr>resp_Error := Some \<lparr>err_Code = - 32601, err_Message = err\<rparr>\<rparr>
                      | Inr p \<Rightarrow> resp\<lparr>resp_Result := Some (PromptValue p)\<rparr>))
              else if req_Method req = ''prompts.list'' then
                resp\<lparr>resp_Result := Some (PromptsMap (ListPrompts s))\<rparr>
              else if req_Method req = ''server.info'' then
                resp\<lparr>resp_Result := Some (ServerInfoMap ''MCP Server'' ''1.0.0'' (ListTools s))\<rparr>
              else if req_Method req = ''system.describe'' then
                resp\<lparr>resp_Result := Some (DescribeMap ''This is a JSON-RPC server for MCP.'' ''1.0.0''
                                           (ListEnabledMethods (Methods s)))\<rparr>
              else if req_Method req = ''system.listMethods'' then
                resp\<lparr>resp_Result := Some (MethodNames (ListEnabledMethods (Methods s)))\<rparr>
              else if req_Method req = ''system.version'' then
                resp\<lparr>resp_Result := Some (StringValue ''2.0'')\<rparr>
              else resp\<lparr>resp_Error := Some MethodNotFound\<rparr>)))"

text \<open>
  \<open>wsHandler\<close>: one pass of the read loop on a decoded request (\<open>wsHandler_body\<close>),
  and the loop over the frames of a connection. A frame is a read error, which ends the
  loop, or a request paired with whether writing its response succeeds; the result is
  the list of responses handed to \<^verbatim>\<open>WriteJSON\<close>. The heartbeat goroutine sends pings only
  and is left out.
\<close>

definition wsHandler_body :: "server \<Rightarrow> RPCRequest \<Rightarrow> RPCResponse" where
  "wsHandler_body s req =
     (let resp = \<lparr>resp_JsonRPC = ''2.0'', resp_ID = req_ID req,
                   resp_Result = None, resp_Error = None\<rparr>
      in if req_Method req = ''tools.list'' then resp\<lparr>resp_Result := Some (listTools s)\<rparr>
         else if req_Method req = ''tools.run'' then
           (case Unmarshal_RunParams (req_Params req) of
              (params, _) \<Rightarrow>
                (case CallToolByName s (run_Name params) (run_Arguments params) of
                   (result, Some err) \<Rightarrow>
                     resp\<lparr>resp_Error := Some \<lparr>err_Code = - 32601, err_Message = err\<rparr>\<rparr>
                 | (result, None) \<Rightarrow> resp\<lparr>resp_Result := map_option ToolValue result\<rparr>))
         else if req_Method req = ''resources.get'' then
           (case Unmarshal_NameParams (req_Params req) of
              (name, Some err) \<Rightarrow> resp\<lparr>resp_Error := Some InvalidParams\<rparr>
            | (name, None) \<Rightarrow>
                (case GetResource s name of
                   Inl err \<Rightarrow> resp\<lparr>resp_Error := Some \<lparr>err_Code = - 32601, err_Message = err\<rparr>\<rparr>
                 | Inr r \<Rightarrow> resp\<lparr>resp_Result := Some (ResourceValue r)\<rparr>))
         else if req_Method req = ''resources.list'' then
           resp\<lparr>resp_Result := Some (ResourcesMap (ListResources s))\<rparr>
         else if req_Method req = ''prompts.get'' then
           (case Unmarshal_NameParams (req_Params req) of
              (name, Some err) \<Rightarrow> resp\<lparr>resp_Error := Some InvalidParams\<rparr>
            | (name, None) \<Rightarrow>
                (case GetPrompt s name of
                   Inl err \<Rightarrow> resp\<lparr>resp_Error := Some \<lparr>err_Code = - 32601, err_Message = err\<rparr>\<rparr>
                 | Inr p \<Rightarrow> resp\<lparr>resp_Result := Some (PromptValue p)\<rparr>))
         else if req_Method req = ''prompts.list'' then
           resp\<lparr>resp_Result := Some (PromptsMap (ListPrompts s))\<rparr>
         else if req_Method req = ''server.info'' then
           resp\<lparr>resp_Result := Some (ServerInfoMap ''MCP Server'' ''1.0.0'' (ListTools s))\<rparr>
         else if req_Method req = ''system.describe'' then
           resp\<lparr>resp_Result := Some (DescribeMap ''This is a JSON-RPC server for MCP.'' ''1.0.0''
                                      (ListEnabledMethods (Methods s)))\<rparr>
         else if req_Method req = ''system.listMethods'' then
           resp\<lparr>resp_Result := Some (MethodNames (ListEnabledMethods (Methods s)))\<rparr>
         else if req_Method req = ''system.version'' then
           resp\<lparr>resp_Result := Some (StringValue ''2.0'')\<rparr>
         else resp\<lparr>resp_Error := Some MethodNotFound\<rparr>)"

datatype ws_frame =
    ReadError
  | Request RPCRequest bool



section \<open>The two switches compared\<close>

text \<open>
  For the proofs: the branches of the \<^verbatim>\<open>switch req.Method\<close> that both handlers have word
  for word (every method but \<^verbatim>\<open>tools.run\<close>), and what both do with the pair that
  \<open>CallToolByName\<close> returns.
\<close>

definition switch_common :: "server \<Rightarrow> RPCRequest \<Rightarrow> RPCResponse \<Rightarrow> RPCResponse" where
  "switch_common s req resp =
     (if req_Method req = ''tools.list'' then resp\<lparr>resp_Result := Some (listTools s)\<rparr>
      else if req_Method req = ''resources.get'' then
        (case Unmarshal_NameParams (req_Params req) of
           (name, Some err) \<Rightarrow> resp\<lparr>resp_Error := Some InvalidParams\<rparr>
         | (name, None) \<Rightarrow>
             (case GetResource s name of
                Inl err \<Rightarrow> resp\<lparr>resp_Error := Some \<lparr>err_Code = - 32601, err_Message = err\<rparr>\<rparr>
              | Inr r \<Rightarrow> resp\<lparr>resp_Result := Some (ResourceValue r)\<rparr>))
      else if req_Method req = ''resources.list'' then
        resp\<lparr>resp_Result := Some (ResourcesMap (ListResources s))\<rparr>
      else if req_Method req = ''prompts.get'' then
        (case Unmarshal_NameParams (req_Params req) of
           (name, Some err) \<Rightarrow> resp\<lparr>resp_Error := Some InvalidParams\<rparr>
         | (name, None) \<Rightarrow>
             (case GetPrompt s name of
                Inl err \<Rightarrow> resp\<lparr>resp_Error := Some \<lparr>err_Code = - 32601, err_Message = err\<rparr>\<rparr>
              | Inr p \<Rightarrow> resp\<lparr>resp_Result := Some (PromptValue p)\<rparr>))
      else if req_Method req = ''prompts.list'' then
        resp\<lparr>resp_Result := Some (PromptsMap (ListPrompts s))\<rparr>
      else if req_Method req = ''server.info'' then
        resp\<lparr>resp_Result := Some (ServerInfoMap ''MCP Server'' ''1.0.0'' (ListTools s))\<rparr>
      else if req_Method req = ''system.describe'' then
        resp\<lparr>resp_Result := Some (DescribeMap ''This is a JSON-RPC server for MCP.'' ''1.0.0''
                                   (ListEnabledMethods (Methods s)))\<rparr>
      else if req_Method req = ''system.listMethods'' then
        resp\<lparr>resp_Result := Some (MethodNames (ListEnabledMethods (Methods s)))\<rparr>
      else if req_Method req = ''system.version'' then
        resp\<lparr>resp_Result := Some (StringValue ''2.0'')\<rparr>
      else resp\<lparr>resp_Error := Some MethodNotFound\<rparr>)"

definition store_tool_outcome :: "json option \<times> go_error \<Rightarrow> RPCResponse \<Rightarrow> RPCResponse" where
  "store_tool_outcome out resp =
     (case out of
        (result, Some err) \<Rightarrow> resp\<lparr>resp_Error := Some \<lparr>err_Code = - 32601, err_Message = err\<rparr>\<rparr>
      | (result, None) \<Rightarrow> resp\<lparr>resp_Result := map_option ToolValue result\<rparr>)"


section \<open>The operations of the server as a state machine\<close>

text \<open>
  What a program using the package can do to the package-level variables: switch a
  method, register a tool, a resource or a prompt, and serve a request or a connection.
  The two handlers only read the variables.
\<close>

datatype server_op =
    OpSetMethodEnabled string bool
  | OpRegisterTool Tool
  | OpRegisterResource Resource
  | OpRegisterPrompt Prompt
  | OpHttpRequest "string + RPCRequest"
  | OpWsConnection bool "ws_frame list"

fun apply_op :: "server \<Rightarrow> server_op \<Rightarrow> server" where
  "apply_op s (OpSetMethodEnabled method enabled) =
     s\<lparr>Methods := SetMethodEnabled method enabled (Methods s)\<rparr>"
| "apply_op s (OpRegisterTool tool) = RegisterTool tool s"
| "apply_op s (OpRegisterResource r) = RegisterResource r s"
| "apply_op s (OpRegisterPrompt p) = RegisterPrompt p s"
| "apply_op s (OpHttpRequest body) = s"
| "apply_op s (OpWsConnection upgraded frames) = s"

definition run_ops :: "server_op list \<Rightarrow> server" where
  "run_ops ops = foldl apply_op server_init ops"

definition method_names :: "string set" where
  "method_names =
     {''tools.run'', ''tools.list'', ''resources.get'', ''resources.list'', ''prompts.get'',
      ''prompts.list'', ''server.info'', ''system.describe'', ''system.listMethods'',
      ''system.version''}"

definition registered_tools :: "server_op list \<Rightarrow> string list" where
  "registered_tools ops = [tool_Name t. OpRegisterTool t \<leftarrow> ops]"

definition registered_resources :: "server_op list \<Rightarrow> string list" where
  "registered_resources ops = [res_Name r. OpRegisterResource r \<leftarrow> ops]"

definition registered_prompts :: "server_op list \<Rightarrow> string list" where
  "registered_prompts ops = [prompt_Name p. OpRegisterPrompt p \<leftarrow> ops]"

section \<open>Predicates on response envelopes\<close>




section \<open>mcpclient: envelopes, the network and the outcome of a call\<close>

record rpcRequest =
  creq_JsonRPC :: string
  creq_ID :: "64 word"
  creq_Method :: string
  creq_Params :: json

record rpcError =
  cerr_Code :: int
  cerr_Message :: string

record rpcResponse =
  cresp_JsonRPC :: string
  cresp_ID :: "64 word"
  cresp_Result :: RawMessage
  cresp_Error :: "rpcError option"

record ServerInfoResp =
  info_Name :: string
  info_Version :: string
  info_Tools :: "string list"

record ServerListResp =
  list_Tools :: "(string \<times> string) list"

text \<open>
  What the network does is an input of the model. For one HTTP exchange:
  \<^verbatim>\<open>http.NewRequestWithContext\<close> fails (its error is dropped and the nil request is used next,
  which panics), or \<^verbatim>\<open>Do\<close> fails, or the body does not decode, or it decodes into a
  response. For one exchange on a WebSocket connection: the write fails, the read fails,
  or a response is read. For the event stream: the request cannot be built, \<^verbatim>\<open>Do\<close> fails,
  or the bytes of the body arrive until the stream ends.
\<close>

datatype http_exchange =
    HttpNewRequestError
  | HttpDoError string
  | HttpDecodeError string
  | HttpDecoded rpcResponse

datatype ws_exchange =
    WsWriteError string
  | WsReadError string
  | WsReceived rpcResponse

datatype sse_exchange =
    SseNewRequestError
  | SseDoError string
  | SseStream string

record env =
  http_do :: "string \<Rightarrow> rpcRequest \<Rightarrow> http_exchange"
  ws_dial :: "string \<Rightarrow> string + nat"
  ws_exchange :: "rpcRequest \<Rightarrow> ws_exchange"
  sse_get :: "string \<Rightarrow> sse_exchange"
  unmarshal_info :: "RawMessage \<Rightarrow> ServerInfoResp \<times> go_error"
  unmarshal_list :: "RawMessage \<Rightarrow> ServerListResp \<times> go_error"

text \<open>The network actions of an operation, in the order they happen.\<close>

datatype io_event =
    HttpPost string rpcRequest
  | HttpGet string
  | WsDial string
  | WsWriteJSON rpcRequest
  | WsReadJSON
  | WsWriteCloseMessage
  | WsConnClose

text \<open>
  The \<^verbatim>\<open>result interface{}\<close> argument of a call is nil (\<open>None\<close>) or a target that
  \<^verbatim>\<open>json.Unmarshal\<close> fills: the function gives the target's content afterwards and the
  error. A call returns an error, having filled the target or not, or panics.
\<close>

type_synonym 'a target = "RawMessage \<Rightarrow> 'a \<times> go_error"

datatype 'a outcome =
    Returned "'a option" go_error
  | Panicked

fun show_nat :: "nat \<Rightarrow> string" where
  "show_nat n =
     (if n < 10 then [''0123456789'' ! n]
      else show_nat (n div 10) @ [''0123456789'' ! (n mod 10)])"

definition show_int :: "int \<Rightarrow> string" where
  "show_int i = (if i < 0 then CHR ''-'' # show_nat (nat (- i)) else show_nat (nat i))"

text \<open>\<^verbatim>\<open>atomic.AddUint64\<close>: the value stored and the value returned, both the wrapped sum.\<close>

definition AddUint64 :: "64 word \<Rightarrow> 64 word \<Rightarrow> 64 word \<times> 64 word" where
  "AddUint64 addr delta = (addr + delta, addr + delta)"

text \<open>The end of both \<^verbatim>\<open>Call\<close> methods, from the check of \<^verbatim>\<open>rpcResp.Error\<close> on.\<close>

definition finish_call :: "rpcResponse \<Rightarrow> 'a target option \<Rightarrow> 'a outcome" where
  "finish_call rpcResp result =
     (case cresp_Error rpcResp of
        Some e \<Rightarrow>
          Returned None (Some (''MCP Error '' @ show_int (cerr_Code e) @ '': '' @ cerr_Message e))
      | None \<Rightarrow>
          (case result of
             None \<Rightarrow> Returned None None
           | Some unmarshal \<Rightarrow>
               (case unmarshal (cresp_Result rpcResp) of (v, err) \<Rightarrow> Returned (Some v) err)))"

text \<open>The parameters \<^verbatim>\<open>CallTool\<close> wraps a tool call in (a Go map, encoded with sorted keys).\<close>

definition tool_call_params :: "string \<Rightarrow> json \<Rightarrow> json" where
  "tool_call_params toolName args = JObj [(''arguments'', args), (''name'', JStr toolName)]"

section \<open>mcpclient: HTTPClient\<close>

record HTTPClient =
  http_URL :: string
  http_counter :: "64 word"

definition NewHTTPClient :: "string \<Rightarrow> HTTPClient" where
  "NewHTTPClient url = \<lparr>http_URL = url, http_counter = 0\<rparr>"

definition HTTPClient_Call ::
  "env \<Rightarrow> HTTPClient \<Rightarrow> string \<Rightarrow> json \<Rightarrow> 'a target option \<Rightarrow> HTTPClient \<times> 'a outcome \<times> io_event list" where
  "HTTPClient_Call e c method args result =
     (case AddUint64 (http_counter c) 1 of
        (stored, reqID) \<Rightarrow>
          (let c' = c\<lparr>http_counter := stored\<rparr>;
               reqBody = \<lparr>creq_JsonRPC = ''2.0'', creq_ID = reqID,
                          creq_Method = method, creq_Params = args\<rparr>
           in case http_do e (http_URL c) reqBody of
                HttpNewRequestError \<Rightarrow> (c', Panicked, [])
              | HttpDoError err \<Rightarrow> (c', Returned None (Some err), [HttpPost (http_URL c) reqBody])
              | HttpDecodeError err \<Rightarrow> (c', Returned None (Some err), [HttpPost (http_URL c) reqBody])
              | HttpDecoded rpcResp \<Rightarrow>
                  (c', finish_call rpcResp result, [HttpPost (http_URL c) reqBody])))"

definition HTTPClient_CallTool ::
  "env \<Rightarrow> HTTPClient \<Rightarrow> string \<Rightarrow> json \<Rightarrow> 'a target option \<Rightarrow> HTTPClient \<times> 'a outcome \<times> io_event list" where
  "HTTPClient_CallTool e c toolName args result =
     HTTPClient_Call e c ''tools.run'' (tool_call_params toolName args) result"

definition HTTPClient_ListenSSE :: "HTTPClient \<Rightarrow> (string \<times> string) list \<times> unit outcome \<times> io_event list" where
  "HTTPClient_ListenSSE c = ([], Returned None (Some ''HTTP client does not support SSE''), [])"

definition HTTPClient_Close :: "HTTPClient \<Rightarrow> io_event list" where
  "HTTPClient_Close c = []"

section \<open>mcpclient: WSClient\<close>

record WSClient =
  ws_URL :: string
  ws_conn :: "nat option"
  ws_counter :: "64 word"

definition NewWSClient :: "env \<Rightarrow> string \<Rightarrow> (string + WSClient) \<times> io_event list" where
  "NewWSClient e url =
     (case ws_dial e url of
        Inl err \<Rightarrow> (Inl err, [WsDial url])
      | Inr conn \<Rightarrow> (Inr \<lparr>ws_URL = url, ws_conn = Some conn, ws_counter = 0\<rparr>, [WsDial url]))"

definition WSClient_Call ::
  "env \<Rightarrow> WSClient \<Rightarrow> string \<Rightarrow> json \<Rightarrow> 'a target option \<Rightarrow> WSClient \<times> 'a outcome \<times> io_event list" where
  "WSClient_Call e c method args result =
     (case AddUint64 (ws_counter c) 1 of
        (stored, reqID) \<Rightarrow>
          (let c' = c\<lparr>ws_counter := stored\<rparr>;
               req = \<lparr>creq_JsonRPC = ''2.0'', creq_ID = reqID,
                      creq_Method = method, creq_Params = args\<rparr>
           in case ws_conn c of
                None \<Rightarrow> (c', Panicked, [])
              | Some conn \<Rightarrow>
                  (case ws_exchange e req of
                     WsWriteError err \<Rightarrow> (c', Returned None (Some err), [WsWriteJSON req])
                   | WsReadError err \<Rightarrow> (c', Returned None (Some err), [WsWriteJSON req, WsReadJSON])
                   | WsReceived rpcResp \<Rightarrow>
                       (c', finish_call rpcResp result, [WsWriteJSON req, WsReadJSON]))))"

definition WSClient_CallTool ::
  "env \<Rightarrow> WSClient \<Rightarrow> string \<Rightarrow> json \<Rightarrow> 'a target option \<Rightarrow> WSClient \<times> 'a outcome \<times> io_event list" where
  "WSClient_CallTool e c toolName args result =
     WSClient_Call e c ''tools.run'' (tool_call_params toolName args) result"

definition WSClient_ListenSSE :: "WSClient \<Rightarrow> (string \<times> string) list \<times> unit outcome \<times> io_event list" where
  "WSClient_ListenSSE c = ([], Returned None (Some ''WebSocket client does not support SSE''), [])"

definition WSClient_Close :: "WSClient \<Rightarrow> io_event list" where
  "WSClient_Close c =
     (case ws_conn c of None \<Rightarrow> [] | Some conn \<Rightarrow> [WsWriteCloseMessage, WsConnClose])"



section \<open>mcpclient: SSEClient\<close>

record SSEClient =
  sse_URL :: string

definition NewSSEClient :: "string \<Rightarrow> SSEClient" where
  "NewSSEClient url = \<lparr>sse_URL = url\<rparr>"

definition SSEClient_Call ::
  "SSEClient \<Rightarrow> string \<Rightarrow> json \<Rightarrow> 'a target option \<Rightarrow> 'a outcome \<times> io_event list" where
  "SSEClient_Call c method args result =
     (Returned None (Some ''SSE client does not support RPC calls''), [])"

definition SSEClient_CallTool ::
  "SSEClient \<Rightarrow> string \<Rightarrow> json \<Rightarrow> 'a target option \<Rightarrow> 'a outcome \<times> io_event list" where
  "SSEClient_CallTool c toolName args result = SSEClient_Call c toolName args result"

text \<open>
  \<^verbatim>\<open>bufio.Reader.ReadBytes('\n')\<close> on what is left of the stream: the bytes up to and
  including the first line feed, and the rest; \<open>None\<close> when the stream ends before a
  line feed (the bytes read come with an error, and the caller returns the error).
\<close>

fun ReadBytes :: "string \<Rightarrow> (string \<times> string) option" where
  "ReadBytes [] = None"
| "ReadBytes (c # cs) =
     (if c = CHR 0x0A then Some ([c], cs)
      else (case ReadBytes cs of None \<Rightarrow> None | Some (line, rest) \<Rightarrow> Some (c # line, rest)))"

text \<open>
  \<^verbatim>\<open>bytes.TrimSpace\<close> removes the leading and trailing white space of Unicode, read as
  UTF-8: the six ASCII characters and the encodings of U+0085, U+00A0, U+1680,
  U+2000 to U+200A, U+2028, U+2029, U+202F, U+205F and U+3000. Every entry of \<open>spaces\<close>
  has at least one byte, so \<open>length s\<close> rounds are enough to trim \<open>s\<close>.
\<close>

definition spaces :: "string list" where
  "spaces =
     [[CHR 0x09], [CHR 0x0A], [CHR 0x0B], [CHR 0x0C], [CHR 0x0D], [CHR 0x20],
      [CHR 0xC2, CHR 0x85], [CHR 0xC2, CHR 0xA0], [CHR 0xE1, CHR 0x9A, CHR 0x80],
      [CHR 0xE2, CHR 0x80, CHR 0x80], [CHR 0xE2, CHR 0x80, CHR 0x81],
      [CHR 0xE2, CHR 0x80, CHR 0x82], [CHR 0xE2, CHR 0x80, CHR 0x83],
      [CHR 0xE2, CHR 0x80, CHR 0x84], [CHR 0xE2, CHR 0x80, CHR 0x85],
      [CHR 0xE2, CHR 0x80, CHR 0x86], [CHR 0xE2, CHR 0x80, CHR 0x87],
      [CHR 0xE2, CHR 0x80, CHR 0x88], [CHR 0xE2, CHR 0x80, CHR 0x89],
      [CHR 0xE2, CHR 0x80, CHR 0x8A], [CHR 0xE2, CHR 0x80, CHR 0xA8],
      [CHR 0xE2, CHR 0x80, CHR 0xA9], [CHR 0xE2, CHR 0x80, CHR 0xAF],
      [CHR 0xE2, CHR 0x81, CHR 0x9F], [CHR 0xE3, CHR 0x80, CHR 0x80]]"

fun trim_left :: "nat \<Rightarrow> string list \<Rightarrow> string \<Rightarrow> string" where
  "trim_left 0 ws s = s"
| "trim_left (Suc n) ws s =
     (case find (\<lambda>w. prefix w s) ws of
        None \<Rightarrow> s
      | Some w \<Rightarrow> trim_left n ws (drop (length w) s))"

definition TrimSpace :: "string \<Rightarrow> string" where
  "TrimSpace s =
     (let l = trim_left (length s) spaces s
      in rev (trim_left (length l) (map rev spaces) (rev l)))"

text \<open>
  The read loop of \<open>ListenSSE\<close> on what is left of the stream, with the current event
  name: the list of the calls of \<^verbatim>\<open>handler\<close>, each with its event name and its data. The
  loop ends only when \<open>ReadBytes\<close> fails.
\<close>

function ListenSSE_loop :: "string \<Rightarrow> string \<Rightarrow> (string \<times> string) list" where
  "ListenSSE_loop body eventName =
     (case ReadBytes body of
        None \<Rightarrow> []
      | Some (raw, rest) \<Rightarrow>
          (let line = TrimSpace raw
           in if length line = 0 then ListenSSE_loop rest eventName
              else if prefix ''event: '' line then ListenSSE_loop rest (drop 7 line)
              else if prefix ''data: '' line then
                (eventName, drop 6 line) # ListenSSE_loop rest eventName
              else ListenSSE_loop rest eventName))"
  by pat_completeness auto
termination
proof -
  have shorter: "ReadBytes body = Some (raw, rest) \<Longrightarrow> length rest < length body"
    for body raw rest
    by (induction body arbitrary: raw) (auto split: if_splits option.splits)
  show ?thesis
    by (relation "measure (\<lambda>(body, eventName). length body)") (auto dest: shorter)
qed

declare ListenSSE_loop.simps [simp del]

definition SSEClient_ListenSSE ::
  "env \<Rightarrow> SSEClient \<Rightarrow> (string \<times> string) list \<times> unit outcome \<times> io_event list" where
  "SSEClient_ListenSSE e c =
     (case sse_get e (sse_URL c) of
        SseNewRequestError \<Rightarrow> ([], Panicked, [])
      | SseDoError err \<Rightarrow> ([], Returned None (Some err), [HttpGet (sse_URL c)])
      | SseStream body \<Rightarrow>
          (ListenSSE_loop body [], Returned None (Some ''EOF''), [HttpGet (sse_URL c)]))"

definition SSEClient_Close :: "SSEClient \<Rightarrow> io_event list" where
  "SSEClient_Close c = []"




text \<open>A stream made of complete lines, each ended by a line feed, and an unfinished rest.\<close>

definition stream_of :: "string list \<Rightarrow> string \<Rightarrow> string" where
  "stream_of ls rest = concat (map (\<lambda>l. l @ [CHR 0x0A]) ls) @ rest"

section \<open>mcpclient: UnifiedClient\<close>

text \<open>
  The three pointers are \<open>None\<close> when nil. Calling a method of a nil client that reads
  a field of it panics; the constructors leave exactly the pointer of the mode non-nil.
\<close>

record UnifiedClient =
  mode :: string
  http :: "HTTPClient option"
  ws :: "WSClient option"
  sse :: "SSEClient option"

definition NewUnifiedClientHTTP :: "string \<Rightarrow> UnifiedClient" where
  "NewUnifiedClientHTTP url =
     \<lparr>mode = ''http'', http = Some (NewHTTPClient url), ws = None, sse = None\<rparr>"

definition NewUnifiedClientWS :: "env \<Rightarrow> string \<Rightarrow> (string + UnifiedClient) \<times> io_event list" where
  "NewUnifiedClientWS e url =
     (case NewWSClient e url of
        (Inl err, io) \<Rightarrow> (Inl err, io)
      | (Inr c, io) \<Rightarrow> (Inr \<lparr>mode = ''ws'', http = None, ws = Some c, sse = None\<rparr>, io))"

definition NewUnifiedClientSSE :: "string \<Rightarrow> UnifiedClient" where
  "NewUnifiedClientSSE url =
     \<lparr>mode = ''sse'', http = None, ws = None, sse = Some (NewSSEClient url)\<rparr>"

definition UnifiedClient_CallTool ::
  "env \<Rightarrow> UnifiedClient \<Rightarrow> string \<Rightarrow> json \<Rightarrow> 'a target option \<Rightarrow> UnifiedClient \<times> 'a outcome \<times> io_event list" where
  "UnifiedClient_CallTool e c toolName args result =
     (if mode c = ''http'' then
        (case http c of
           None \<Rightarrow> (c, Panicked, [])
         | Some h \<Rightarrow>
             (case HTTPClient_CallTool e h toolName args result of
                (h', out, io) \<Rightarrow> (c\<lparr>http := Some h'\<rparr>, out, io)))
      else if mode c = ''ws'' then
        (case ws c of
           None \<Rightarrow> (c, Panicked, [])
         | Some w \<Rightarrow>
             (case WSClient_CallTool e w toolName args result of
                (w', out, io) \<Rightarrow> (c\<lparr>ws := Some w'\<rparr>, out, io)))
      else if mode c = ''sse'' then
        (c, Returned None (Some ''SSE client does not support RPC calls''), [])
      else (c, Returned None (Some ''unknown client mode''), []))"

definition UnifiedClient_Call ::
  "env \<Rightarrow> UnifiedClient \<Rightarrow> string \<Rightarrow> json \<Rightarrow> 'a target option \<Rightarrow> UnifiedClient \<times> 'a outcome \<times> io_event list" where
  "UnifiedClient_Call e c method args result =
     (if mode c = ''http'' then
        (case http c of
           None \<Rightarrow> (c, Panicked, [])
         | Some h \<Rightarrow>
             (case HTTPClient_Call e h method args result of
                (h', out, io) \<Rightarrow> (c\<lparr>http := Some h'\<rparr>, out, io)))
      else if mode c = ''ws'' then
        (case ws c of
           None \<Rightarrow> (c, Panicked, [])
         | Some w \<Rightarrow>
             (case WSClient_Call e w method args result of
                (w', out, io) \<Rightarrow> (c\<lparr>ws := Some w'\<rparr>, out, io)))
      else if mode c = ''sse'' then
        (c, Returned None (Some ''SSE client does not support RPC calls''), [])
      else (c, Returned None (Some ''unknown client mode''), []))"

text \<open>
  \<open>ServerInfo\<close> and \<open>ServerToolsList\<close> return the address of a local \<^verbatim>\<open>out\<close>, which starts
  zero-valued and holds what the call decoded into it, together with the call's error.
\<close>

definition returned_out :: "'a \<Rightarrow> 'a outcome \<Rightarrow> 'a outcome" where
  "returned_out zero out =
     (case out of
        Returned None err \<Rightarrow> Returned (Some zero) err
      | Returned (Some v) err \<Rightarrow> Returned (Some v) err
      | Panicked \<Rightarrow> Panicked)"

definition UnifiedClient_ServerInfo ::
  "env \<Rightarrow> UnifiedClient \<Rightarrow> UnifiedClient \<times> ServerInfoResp outcome \<times> io_event list" where
  "UnifiedClient_ServerInfo e c =
     (let zero = \<lparr>info_Name = [], info_Version = [], info_Tools = []\<rparr>
      in if mode c = ''http'' then
           (case http c of
              None \<Rightarrow> (c, Panicked, [])
            | Some h \<Rightarrow>
                (case HTTPClient_Call e h ''server.info'' (JObj []) (Some (unmarshal_info e)) of
                   (h', out, io) \<Rightarrow> (c\<lparr>http := Some h'\<rparr>, returned_out zero out, io)))
         else if mode c = ''ws'' then
           (case ws c of
              None \<Rightarrow> (c, Panicked, [])
            | Some w \<Rightarrow>
                (case WSClient_Call e w ''server.info'' (JObj []) (Some (unmarshal_info e)) of
                   (w', out, io) \<Rightarrow> (c\<lparr>ws := Some w'\<rparr>, returned_out zero out, io)))
         else if mode c = ''sse'' then
           (c, Returned None (Some ''SSE client does not support RPC calls''), [])
         else (c, Returned None (Some ''unknown client mode''), []))"

definition UnifiedClient_ServerToolsList ::
  "env \<Rightarrow> UnifiedClient \<Rightarrow> UnifiedClient \<times> ServerListResp outcome \<times> io_event list" where
  "UnifiedClient_ServerToolsList e c =
     (let zero = \<lparr>list_Tools = []\<rparr>
      in if mode c = ''http'' then
           (case http c of
              None \<Rightarrow> (c, Panicked, [])
            | Some h \<Rightarrow>
                (case HTTPClient_Call e h ''tools.list'' (JObj []) (Some (unmarshal_list e)) of
                   (h', out, io) \<Rightarrow> (c\<lparr>http := Some h'\<rparr>, returned_out zero out, io)))
         else if mode c = ''ws'' then
           (case ws c of
              None \<Rightarrow> (c, Panicked, [])
            | Some w \<Rightarrow>
                (case WSClient_Call e w ''tools.list'' (JObj []) (Some (unmarshal_list e)) of
                   (w', out, io) \<Rightarrow> (c\<lparr>ws := Some w'\<rparr>, returned_out zero out, io)))
         else if mode c = ''sse'' then
           (c, Returned None (Some ''SSE client does not support RPC calls''), [])
         else (c, Returned None (Some ''unknown client mode''), []))"

definition UnifiedClient_WatchEvents ::
  "env \<Rightarrow> UnifiedClient \<Rightarrow> (string \<times> string) list \<times> unit outcome \<times> io_event list" where
  "UnifiedClient_WatchEvents e c =
     (if mode c = ''http'' then ([], Returned None (Some ''HTTP client does not support SSE''), [])
      else if mode c = ''ws'' then
        ([], Returned None (Some ''WebSocket client does not support SSE''), [])
      else if mode c = ''sse'' then
        (case sse c of
           None \<Rightarrow> ([], Panicked, [])
         | Some s \<Rightarrow> SSEClient_ListenSSE e s)
      else ([], Returned None (Some ''unknown client mode''), []))"

definition UnifiedClient_Close :: "UnifiedClient \<Rightarrow> unit outcome \<times> io_event list" where
  "UnifiedClient_Close c =
     (if mode c = ''http'' then
        (Returned None None, case http c of None \<Rightarrow> [] | Some h \<Rightarrow> HTTPClient_Close h)
      else if mode c = ''ws'' then
        (case ws c of
           None \<Rightarrow> (Panicked, [])
         | Some w \<Rightarrow> (Returned None None, WSClient_Close w))
      else if mode c = ''sse'' then
        (Returned None None, case sse c of None \<Rightarrow> [] | Some s \<Rightarrow> SSEClient_Close s)
      else (Returned None None, []))"

text \<open>The messages of the errors the facade gives for an operation its transport lacks.\<close>

definition capability_mismatch :: "string set" where
  "capability_mismatch =
     {''SSE client does not support RPC calls'',
      ''HTTP client does not support SSE'',
      ''WebSocket client does not support SSE''}"

section \<open>mcpserver: locks and map accesses of the registry functions\<close>

text \<open>
  What each registry function does to its registry's \<^verbatim>\<open>sync.RWMutex\<close> and to the map, in
  program order (a deferred unlock runs at the return). A map access takes time: it is
  the pair of its beginning and its end, so that two accesses may overlap.
\<close>

datatype map_access =
    Store
  | Lookup
  | Range

datatype step =
    Lock
  | Unlock
  | RLock
  | RUnlock
  | Begin map_access
  | End map_access

definition RegisterTool_steps :: "step list" where
  "RegisterTool_steps = [Begin Store, End Store]"

definition ListTools_steps :: "step list" where
  "ListTools_steps = [Begin Range, End Range]"

definition CallToolByName_steps :: "step list" where
  "CallToolByName_steps = [Begin Lookup, End Lookup]"

definition RegisterResource_steps :: "step list" where
  "RegisterResource_steps = [Lock, Begin Store, End Store, Unlock]"

definition GetResource_steps :: "step list" where
  "GetResource_steps = [RLock, Begin Lookup, End Lookup, RUnlock]"

definition ListResources_steps :: "step list" where
  "ListResources_steps = [RLock, Begin Range, End Range, RUnlock]"

definition RegisterPrompt_steps :: "step list" where
  "RegisterPrompt_steps = [Lock, Begin Store, End Store, Unlock]"

definition GetPrompt_steps :: "step list" where
  "GetPrompt_steps = [RLock, Begin Lookup, End Lookup, RUnlock]"

definition ListPrompts_steps :: "step list" where
  "ListPrompts_steps = [RLock, Begin Range, End Range, RUnlock]"

text \<open>
  A function is guarded when each of its stores happens under the write lock and each of
  its lookups and ranges under the read lock or the write lock.
\<close>

datatype held =
    Free
  | Shared
  | Exclusive

fun guarded :: "held \<Rightarrow> step list \<Rightarrow> bool" where
  "guarded h [] = True"
| "guarded h (Lock # xs) = guarded Exclusive xs"
| "guarded h (Unlock # xs) = guarded Free xs"
| "guarded h (RLock # xs) = guarded Shared xs"
| "guarded h (RUnlock # xs) = guarded Free xs"
| "guarded h (Begin Store # xs) = (h = Exclusive \<and> guarded h xs)"
| "guarded h (Begin a # xs) = (h \<noteq> Free \<and> guarded h xs)"
| "guarded h (End a # xs) = guarded h xs"

text \<open>
  Two goroutines, \<open>False\<close> and \<open>True\<close>, each running one function: the schedules are the
  interleavings of their steps. A schedule is admissible when the lock allows it: the
  write lock is taken only when nobody holds the lock, the read lock only when no writer
  does. A schedule has a race when an access begins while the other goroutine is inside
  an access and one of the two is a store.
\<close>

fun interleave :: "'a list \<Rightarrow> 'a list \<Rightarrow> 'a list list" where
  "interleave [] ys = [ys]"
| "interleave xs [] = [xs]"
| "interleave (x # xs) (y # ys) =
     map ((#) x) (interleave xs (y # ys)) @ map ((#) y) (interleave (x # xs) ys)"

definition schedules :: "step list \<Rightarrow> step list \<Rightarrow> (bool \<times> step) list list" where
  "schedules xs ys = interleave (map (Pair False) xs) (map (Pair True) ys)"

fun admissible :: "nat \<times> bool \<Rightarrow> (bool \<times> step) list \<Rightarrow> bool" where
  "admissible (readers, writer) [] = True"
| "admissible (readers, writer) ((g, Lock) # xs) =
     (readers = 0 \<and> \<not> writer \<and> admissible (readers, True) xs)"
| "admissible (readers, writer) ((g, Unlock) # xs) = admissible (readers, False) xs"
| "admissible (readers, writer) ((g, RLock) # xs) =
     (\<not> writer \<and> admissible (Suc readers, writer) xs)"
| "admissible (readers, writer) ((g, RUnlock) # xs) = admissible (readers - 1, writer) xs"
| "admissible (readers, writer) ((g, Begin a) # xs) = admissible (readers, writer) xs"
| "admissible (readers, writer) ((g, End a) # xs) = admissible (readers, writer) xs"

fun race :: "(bool \<Rightarrow> map_access option) \<Rightarrow> (bool \<times> step) list \<Rightarrow> bool" where
  "race inside [] = False"
| "race inside ((g, Begin a) # xs) =
     ((case inside (\<not> g) of
         None \<Rightarrow> False
       | Some b \<Rightarrow> a = Store \<or> b = Store)
      \<or> race (inside(g := Some a)) xs)"
| "race inside ((g, End a) # xs) = race (inside(g := None)) xs"
| "race inside ((g, Lock) # xs) = race inside xs"
| "race inside ((g, Unlock) # xs) = race inside xs"
| "race inside ((g, RLock) # xs) = race inside xs"
| "race inside ((g, RUnlock) # xs) = race inside xs"

definition race_free :: "step list \<Rightarrow> step list \<Rightarrow> bool" where
  "race_free xs ys =
     list_all (\<lambda>t. \<not> (admissible (0, False) t \<and> race (\<lambda>g. None) t)) (schedules xs ys)"

section \<open>The two handlers share all branches but one\<close>

lemma httpHandler_switch:
  "httpHandler s body =
     (case body of
        Inl err \<Rightarrow> HttpError err 400
      | Inr req \<Rightarrow>
          (let resp = \<lparr>resp_JsonRPC = ''2.0'', resp_ID = req_ID req,
                        resp_Result = None, resp_Error = None\<rparr>
           in HttpJSON
             (if req_Method req = ''tools.run'' then
                (case Unmarshal_RunParams (req_Params req) of
                   (params, Some err) \<Rightarrow> resp\<lparr>resp_Error := Some InvalidParams\<rparr>
                 | (params, None) \<Rightarrow>
                     store_tool_outcome
                       (CallToolByName s (run_Name params) (run_Arguments params)) resp)
              else switch_common s req resp)))"
  by (simp add: httpHandler_def switch_common_def store_tool_outcome_def Let_def
      split: sum.splits prod.splits option.splits)

lemma wsHandler_body_switch:
  "wsHandler_body s req =
     (let resp = \<lparr>resp_JsonRPC = ''2.0'', resp_ID = req_ID req,
                   resp_Result = None, resp_Error = None\<rparr>
      in if req_Method req = ''tools.run'' then
           (case Unmarshal_RunParams (req_Params req) of
              (params, _) \<Rightarrow>
                store_tool_outcome
                  (CallToolByName s (run_Name params) (run_Arguments params)) resp)
         else switch_common s req resp)"
  by (simp add: wsHandler_body_def switch_common_def store_tool_outcome_def Let_def
      split: prod.splits option.splits)

section \<open>The method switch table keeps its keys\<close>
lemma map_of_SetMethodEnabled:
  "map_of (SetMethodEnabled method enabled M) =
     (if method \<in> dom (map_of M) then (map_of M)(method \<mapsto> enabled) else map_of M)"
  by (auto simp: SetMethodEnabled_def AList.update_conv' split: option.splits)

lemma dom_SetMethodEnabled: "dom (map_of (SetMethodEnabled method enabled M)) = dom (map_of M)"
  by (auto simp: map_of_SetMethodEnabled)

lemma Methods_apply_op: "dom (map_of (Methods (apply_op s op))) = dom (map_of (Methods s))"
  by (cases op) (simp_all add: dom_SetMethodEnabled RegisterTool_def RegisterResource_def RegisterPrompt_def)

lemma dom_Methods_init: "dom (map_of Methods_init) = method_names"
  by (auto simp: Methods_init_def method_names_def)

lemma Methods_foldl: "dom (map_of (Methods (foldl apply_op s ops))) = dom (map_of (Methods s))"
  by (induction ops arbitrary: s) (simp_all add: Methods_apply_op)

text \<open>
  C10. \<open>SetMethodEnabled\<close> changes the flag of a name that is in the table and nothing
  else; for any other name it returns the table as it was. Its keys never change, and
  after any sequence of operations of the server the keys of \<open>Methods\<close> are the ten
  names the table starts with.
\<close>
theorem method_table_keys_constant:
  "map_of (SetMethodEnabled method enabled M) =
     (if method \<in> dom (map_of M) then (map_of M)(method \<mapsto> enabled) else map_of M)
   \<and> (SetMethodEnabled method enabled M = M \<or> method \<in> dom (map_of M))
   \<and> dom (map_of (SetMethodEnabled method enabled M)) = dom (map_of M)
   \<and> dom (map_of (Methods (run_ops ops))) = method_names
   \<and> card method_names = 10"
  apply (intro conjI)
      apply (rule map_of_SetMethodEnabled)
     apply (auto simp: SetMethodEnabled_def split: option.splits)[1]
    apply (rule dom_SetMethodEnabled)
   apply (simp add: run_ops_def Methods_foldl server_init_def dom_Methods_init)
  apply (simp add: method_names_def)
  done

section \<open>Dispatch and the switch table\<close>

text \<open>
  Apart from the two methods that list the enabled methods, a response does not depend
  on the switch table.
\<close>

lemma dispatch_ignores_switch_table:
  "req_Method req \<noteq> ''system.describe'' \<Longrightarrow> req_Method req \<noteq> ''system.listMethods'' \<Longrightarrow>
     httpHandler (s\<lparr>Methods := M\<rparr>) (Inr req) = httpHandler s (Inr req)
   \<and> wsHandler_body (s\<lparr>Methods := M\<rparr>) req = wsHandler_body s req"
  by (simp add: httpHandler_def wsHandler_body_def Let_def listTools_def ListTools_def
      CallToolByName_def GetResource_def GetPrompt_def ListResources_def ListPrompts_def)

text \<open>
  C1. Neither handler consults the switch table. With \<^verbatim>\<open>system.version\<close> switched off,
  \<open>IsMethodEnabled\<close> is false for it as it is for the absent name \<^verbatim>\<open>foo.bar\<close>, yet on
  both transports the switched-off method is served with its result while the absent
  name gets the method-not-found error: the two are told apart.
\<close>
theorem disabled_method_still_dispatched:
  "let M = SetMethodEnabled ''system.version'' False Methods_init;
       s = server_init\<lparr>Methods := M\<rparr>;
       disabled = \<lparr>req_JsonRPC = ''2.0'', req_ID = 7, req_Method = ''system.version'', req_Params = None\<rparr>;
       absent = \<lparr>req_JsonRPC = ''2.0'', req_ID = 7, req_Method = ''foo.bar'', req_Params = None\<rparr>
   in \<not> IsMethodEnabled M ''system.version''
    \<and> \<not> IsMethodEnabled M ''foo.bar''
    \<and> httpHandler s (Inr disabled) =
        HttpJSON \<lparr>resp_JsonRPC = ''2.0'', resp_ID = 7,
                  resp_Result = Some (StringValue ''2.0''), resp_Error = None\<rparr>
    \<and> httpHandler s (Inr absent) =
        HttpJSON \<lparr>resp_JsonRPC = ''2.0'', resp_ID = 7,
                  resp_Result = None, resp_Error = Some MethodNotFound\<rparr>
    \<and> wsHandler_body s disabled =
        \<lparr>resp_JsonRPC = ''2.0'', resp_ID = 7,
         resp_Result = Some (StringValue ''2.0''), resp_Error = None\<rparr>
    \<and> wsHandler_body s absent =
        \<lparr>resp_JsonRPC = ''2.0'', resp_ID = 7,
         resp_Result = None, resp_Error = Some MethodNotFound\<rparr>"
  by (simp add: Let_def SetMethodEnabled_def Methods_init_def IsMethodEnabled_def AList.update.simps
      server_init_def httpHandler_switch wsHandler_body_switch switch_common_def)

section \<open>Parameters that fail to decode\<close>

text \<open>
  The branches that do check the decoder's error: \<^verbatim>\<open>tools.run\<close> over HTTP, and
  \<^verbatim>\<open>resources.get\<close> and \<^verbatim>\<open>prompts.get\<close> on both transports.
\<close>

lemma decode_failure_is_invalid_params_elsewhere:
  "(req_Method req = ''tools.run'' \<and> snd (Unmarshal_RunParams (req_Params req)) \<noteq> None \<longrightarrow>
      httpHandler s (Inr req) =
        HttpJSON \<lparr>resp_JsonRPC = ''2.0'', resp_ID = req_ID req, resp_Result = None,
                  resp_Error = Some InvalidParams\<rparr>)
   \<and> ((req_Method req = ''resources.get'' \<or> req_Method req = ''prompts.get'')
        \<and> snd (Unmarshal_NameParams (req_Params req)) \<noteq> None \<longrightarrow>
      httpHandler s (Inr req) =
        HttpJSON \<lparr>resp_JsonRPC = ''2.0'', resp_ID = req_ID req, resp_Result = None,
                  resp_Error = Some InvalidParams\<rparr>
      \<and> wsHandler_body s req =
        \<lparr>resp_JsonRPC = ''2.0'', resp_ID = req_ID req, resp_Result = None,
         resp_Error = Some InvalidParams\<rparr>)"
  by (cases "Unmarshal_RunParams (req_Params req)"; cases "Unmarshal_NameParams (req_Params req)")
    (auto simp: httpHandler_def wsHandler_body_def Let_def)

text \<open>
  C2. The parameters of this \<^verbatim>\<open>tools.run\<close> request are a JSON string, which does not
  decode into the parameter struct. The HTTP handler answers with the invalid-params
  error. The WebSocket handler drops the decoder's error and goes on with the struct
  as it stands: with no tool of the empty name it answers \<open>-32601\<close>, and with such a
  tool registered it runs the tool's handler.
\<close>
theorem ws_tools_run_ignores_decode_failure:
  "let req = \<lparr>req_JsonRPC = ''2.0'', req_ID = 3, req_Method = ''tools.run'',
              req_Params = Some (JStr ''geocode'')\<rparr>;
       blank = \<lparr>tool_Name = [], tool_Description = [],
                tool_Handler = (\<lambda>args. (Some (JStr ''ran''), None))\<rparr>
   in snd (Unmarshal_RunParams (req_Params req)) \<noteq> None
    \<and> httpHandler server_init (Inr req) =
        HttpJSON \<lparr>resp_JsonRPC = ''2.0'', resp_ID = 3,
                  resp_Result = None, resp_Error = Some InvalidParams\<rparr>
    \<and> wsHandler_body server_init req =
        \<lparr>resp_JsonRPC = ''2.0'', resp_ID = 3, resp_Result = None,
         resp_Error = Some \<lparr>err_Code = - 32601, err_Message = ''tool not found: ''\<rparr>\<rparr>
    \<and> wsHandler_body (RegisterTool blank server_init) req =
        \<lparr>resp_JsonRPC = ''2.0'', resp_ID = 3,
         resp_Result = Some (ToolValue (JStr ''ran'')), resp_Error = None\<rparr>"
  by (simp add: Let_def Unmarshal_RunParams_def kind_of_def httpHandler_switch wsHandler_body_switch
      server_init_def CallToolByName_def store_tool_outcome_def RegisterTool_def)

section \<open>Result and error of a response envelope\<close>














section \<open>Registration and lookup\<close>
lemma keys_update: "fst ` set (AList.update k v al) = insert k (fst ` set al)"
  by (simp add: AList.dom_update)

lemma registries_foldl:
  "fst ` set (toolRegistry (foldl apply_op s ops)) = fst ` set (toolRegistry s) \<union> set (registered_tools ops)
   \<and> fst ` set (resourceRegistry (foldl apply_op s ops)) = fst ` set (resourceRegistry s) \<union> set (registered_resources ops)
   \<and> fst ` set (promptRegistry (foldl apply_op s ops)) = fst ` set (promptRegistry s) \<union> set (registered_prompts ops)"
proof (induction ops arbitrary: s)
  case Nil
  show ?case by (simp add: registered_tools_def registered_resources_def registered_prompts_def)
next
  case (Cons op ops)
  show ?case
    by (cases op)
      (auto simp: Cons.IH registered_tools_def registered_resources_def registered_prompts_def
        RegisterTool_def RegisterResource_def RegisterPrompt_def keys_update)
qed

lemma map_of_None_keys: "map_of al k = None \<longleftrightarrow> k \<notin> fst ` set al"
  by (simp add: map_of_eq_None_iff)

text \<open>
  C8. In each registry a lookup right after a registration finds the registered entry,
  whatever the registry held before, in particular an older entry of the same name; for
  tools the lookup is the one of \<open>CallToolByName\<close>, which runs the handler found. A name
  that no registration has used since the empty registries is reported as not found.
\<close>
theorem register_get_roundtrip:
  "GetResource (RegisterResource r s) (res_Name r) = Inr r
   \<and> GetPrompt (RegisterPrompt p s) (prompt_Name p) = Inr p
   \<and> map_of (toolRegistry (RegisterTool t s)) (tool_Name t) = Some t
   \<and> CallToolByName (RegisterTool t s) (tool_Name t) args = tool_Handler t args
   \<and> (res_Name r' = res_Name r \<longrightarrow>
        GetResource (RegisterResource r (RegisterResource r' s)) (res_Name r') = Inr r)
   \<and> (prompt_Name p' = prompt_Name p \<longrightarrow>
        GetPrompt (RegisterPrompt p (RegisterPrompt p' s)) (prompt_Name p') = Inr p)
   \<and> (tool_Name t' = tool_Name t \<longrightarrow>
        CallToolByName (RegisterTool t (RegisterTool t' s)) (tool_Name t') args = tool_Handler t args)
   \<and> (name \<notin> set (registered_resources ops) \<longrightarrow>
        GetResource (run_ops ops) name = Inl (''resource not found: '' @ name))
   \<and> (name \<notin> set (registered_prompts ops) \<longrightarrow>
        GetPrompt (run_ops ops) name = Inl (''prompt not found: '' @ name))
   \<and> (name \<notin> set (registered_tools ops) \<longrightarrow>
        CallToolByName (run_ops ops) name args = (None, Some (''tool not found: '' @ name)))"
proof -
  have keys: "fst ` set (toolRegistry (run_ops ops)) = set (registered_tools ops)"
    "fst ` set (resourceRegistry (run_ops ops)) = set (registered_resources ops)"
    "fst ` set (promptRegistry (run_ops ops)) = set (registered_prompts ops)"
    using registries_foldl [of server_init ops] by (simp_all add: run_ops_def server_init_def)
  have a: "GetResource (run_ops ops) name = Inl (''resource not found: '' @ name)"
    if "name \<notin> set (registered_resources ops)"
  proof -
    have "map_of (resourceRegistry (run_ops ops)) name = None"
      using that keys(2) by (simp add: map_of_None_keys)
    then show ?thesis by (simp add: GetResource_def)
  qed
  have b: "GetPrompt (run_ops ops) name = Inl (''prompt not found: '' @ name)"
    if "name \<notin> set (registered_prompts ops)"
  proof -
    have "map_of (promptRegistry (run_ops ops)) name = None"
      using that keys(3) by (simp add: map_of_None_keys)
    then show ?thesis by (simp add: GetPrompt_def)
  qed
  have c: "CallToolByName (run_ops ops) name args = (None, Some (''tool not found: '' @ name))"
    if "name \<notin> set (registered_tools ops)"
  proof -
    have "map_of (toolRegistry (run_ops ops)) name = None"
      using that keys(1) by (simp add: map_of_None_keys)
    then show ?thesis by (simp add: CallToolByName_def)
  qed
  show ?thesis
    using a b c
    by (simp add: GetResource_def RegisterResource_def GetPrompt_def RegisterPrompt_def
        CallToolByName_def RegisterTool_def AList.update_conv')
qed

theorem register_get_roundtrip_witness:
  "let r1 = \<lparr>res_Name = ''test1'', res_Type = ''string'', res_Data = Some (JStr ''hello world'')\<rparr>;
       r2 = \<lparr>res_Name = ''test1'', res_Type = ''int'', res_Data = Some (JNum ''123'')\<rparr>;
       p1 = \<lparr>prompt_Name = ''greet'', prompt_Template = ''hello''\<rparr>;
       p2 = \<lparr>prompt_Name = ''greet'', prompt_Template = ''good day''\<rparr>;
       t1 = \<lparr>tool_Name = ''echo'', tool_Description = ''first'',
             tool_Handler = (\<lambda>args. (Some JNull, None))\<rparr>;
       t2 = \<lparr>tool_Name = ''echo'', tool_Description = ''second'',
             tool_Handler = (\<lambda>args. (Some (JStr ''second''), None))\<rparr>;
       ops = [OpRegisterResource r1, OpRegisterPrompt p1, OpRegisterTool t1]
   in res_Name r1 = res_Name r2 \<and> prompt_Name p1 = prompt_Name p2 \<and> tool_Name t1 = tool_Name t2
    \<and> ''other'' \<notin> set (registered_resources ops)
    \<and> ''other'' \<notin> set (registered_prompts ops)
    \<and> ''other'' \<notin> set (registered_tools ops)
    \<and> GetResource (RegisterResource r2 (RegisterResource r1 server_init)) ''test1'' = Inr r2
    \<and> GetPrompt (RegisterPrompt p2 (RegisterPrompt p1 server_init)) ''greet'' = Inr p2
    \<and> CallToolByName (RegisterTool t2 (RegisterTool t1 server_init)) ''echo'' None
        = (Some (JStr ''second''), None)
    \<and> GetResource (run_ops ops) ''other'' = Inl ''resource not found: other''
    \<and> GetPrompt (run_ops ops) ''other'' = Inl ''prompt not found: other''
    \<and> CallToolByName (run_ops ops) ''other'' None = (None, Some ''tool not found: other'')"
  using register_get_roundtrip
    [of "\<lparr>res_Name = ''test1'', res_Type = ''int'', res_Data = Some (JNum ''123'')\<rparr>"
        server_init
        "\<lparr>prompt_Name = ''greet'', prompt_Template = ''good day''\<rparr>"
        "\<lparr>tool_Name = ''echo'', tool_Description = ''second'',
          tool_Handler = (\<lambda>args. (Some (JStr ''second''), None))\<rparr>"
        None
        "\<lparr>res_Name = ''test1'', res_Type = ''string'', res_Data = Some (JStr ''hello world'')\<rparr>"
        "\<lparr>prompt_Name = ''greet'', prompt_Template = ''hello''\<rparr>"
        "\<lparr>tool_Name = ''echo'', tool_Description = ''first'',
          tool_Handler = (\<lambda>args. (Some JNull, None))\<rparr>"
        "''other''"
        "[OpRegisterResource \<lparr>res_Name = ''test1'', res_Type = ''string'', res_Data = Some (JStr ''hello world'')\<rparr>,
          OpRegisterPrompt \<lparr>prompt_Name = ''greet'', prompt_Template = ''hello''\<rparr>,
          OpRegisterTool \<lparr>tool_Name = ''echo'', tool_Description = ''first'',
             tool_Handler = (\<lambda>args. (Some JNull, None))\<rparr>]"]
  by (simp add: Let_def registered_resources_def registered_prompts_def registered_tools_def)

section \<open>Running a tool that is not registered\<close>

text \<open>
  C9. For a name with no entry in the tool registry, \<open>CallToolByName\<close> returns an error
  whose message contains the name, and a \<^verbatim>\<open>tools.run\<close> request whose parameters carry that
  name is answered, on both transports, with a structured error of code \<open>-32601\<close> whose
  message contains the name (on HTTP provided the parameters decode without error).
\<close>
theorem unregistered_tool_error_contains_name:
  "map_of (toolRegistry s) name = None \<Longrightarrow>
     (\<exists>msg. CallToolByName s name args = (None, Some msg) \<and> sublist name msg)
   \<and> (req_Method req = ''tools.run'' \<and> run_Name (fst (Unmarshal_RunParams (req_Params req))) = name \<longrightarrow>
        (\<exists>msg. wsHandler_body s req =
                 \<lparr>resp_JsonRPC = ''2.0'', resp_ID = req_ID req, resp_Result = None,
                  resp_Error = Some \<lparr>err_Code = - 32601, err_Message = msg\<rparr>\<rparr>
              \<and> sublist name msg)
      \<and> (snd (Unmarshal_RunParams (req_Params req)) = None \<longrightarrow>
           (\<exists>msg. httpHandler s (Inr req) =
                 HttpJSON \<lparr>resp_JsonRPC = ''2.0'', resp_ID = req_ID req, resp_Result = None,
                  resp_Error = Some \<lparr>err_Code = - 32601, err_Message = msg\<rparr>\<rparr>
              \<and> sublist name msg)))"
proof -
  assume none: "map_of (toolRegistry s) name = None"
  have call: "CallToolByName s name a = (None, Some (''tool not found: '' @ name))" for a
    using none by (simp add: CallToolByName_def)
  have sub: "sublist name (''tool not found: '' @ name)"
    unfolding sublist_def by (intro exI [of _ "''tool not found: ''"] exI [of _ "[]"]) simp
  show ?thesis
  proof (intro conjI impI)
    show "\<exists>msg. CallToolByName s name args = (None, Some msg) \<and> sublist name msg"
      using call sub by blast
  next
    assume h: "req_Method req = ''tools.run'' \<and> run_Name (fst (Unmarshal_RunParams (req_Params req))) = name"
    have "wsHandler_body s req =
            \<lparr>resp_JsonRPC = ''2.0'', resp_ID = req_ID req, resp_Result = None,
             resp_Error = Some \<lparr>err_Code = - 32601, err_Message = ''tool not found: '' @ name\<rparr>\<rparr>"
      using h call by (cases "Unmarshal_RunParams (req_Params req)")
        (simp add: wsHandler_body_switch store_tool_outcome_def)
    then show "\<exists>msg. wsHandler_body s req =
                 \<lparr>resp_JsonRPC = ''2.0'', resp_ID = req_ID req, resp_Result = None,
                  resp_Error = Some \<lparr>err_Code = - 32601, err_Message = msg\<rparr>\<rparr>
              \<and> sublist name msg"
      using sub by blast
  next
    assume h: "req_Method req = ''tools.run'' \<and> run_Name (fst (Unmarshal_RunParams (req_Params req))) = name"
      and ok: "snd (Unmarshal_RunParams (req_Params req)) = None"
    have "httpHandler s (Inr req) =
            HttpJSON \<lparr>resp_JsonRPC = ''2.0'', resp_ID = req_ID req, resp_Result = None,
             resp_Error = Some \<lparr>err_Code = - 32601, err_Message = ''tool not found: '' @ name\<rparr>\<rparr>"
      using h ok call by (cases "Unmarshal_RunParams (req_Params req)")
        (simp add: httpHandler_switch store_tool_outcome_def)
    then show "\<exists>msg. httpHandler s (Inr req) =
                 HttpJSON \<lparr>resp_JsonRPC = ''2.0'', resp_ID = req_ID req, resp_Result = None,
                  resp_Error = Some \<lparr>err_Code = - 32601, err_Message = msg\<rparr>\<rparr>
              \<and> sublist name msg"
      using sub by blast
  qed
qed

theorem unregistered_tool_error_witness:
  "let req = \<lparr>req_JsonRPC = ''2.0'', req_ID = 5, req_Method = ''tools.run'',
              req_Params = Some (JObj [(''name'', JStr ''weather''), (''arguments'', JObj [])])\<rparr>
   in map_of (toolRegistry server_init) ''weather'' = None
    \<and> Unmarshal_RunParams (req_Params req) = (\<lparr>run_Name = ''weather'', run_Arguments = Some (JObj [])\<rparr>, None)
    \<and> CallToolByName server_init ''weather'' (Some (JObj [])) = (None, Some ''tool not found: weather'')
    \<and> sublist ''weather'' ''tool not found: weather''
    \<and> httpHandler server_init (Inr req) =
        HttpJSON \<lparr>resp_JsonRPC = ''2.0'', resp_ID = 5, resp_Result = None,
                  resp_Error = Some \<lparr>err_Code = - 32601, err_Message = ''tool not found: weather''\<rparr>\<rparr>
    \<and> wsHandler_body server_init req =
        \<lparr>resp_JsonRPC = ''2.0'', resp_ID = 5, resp_Result = None,
         resp_Error = Some \<lparr>err_Code = - 32601, err_Message = ''tool not found: weather''\<rparr>\<rparr>"
proof -
  define req where "req = \<lparr>req_JsonRPC = ''2.0'', req_ID = 5, req_Method = ''tools.run'',
              req_Params = Some (JObj [(''name'', JStr ''weather''), (''arguments'', JObj [])])\<rparr>"
  have none: "map_of (toolRegistry server_init) ''weather'' = None"
    by (simp add: server_init_def)
  have dec: "Unmarshal_RunParams (req_Params req) = (\<lparr>run_Name = ''weather'', run_Arguments = Some (JObj [])\<rparr>, None)"
    by (simp add: req_def Unmarshal_RunParams_def asciiUpper_def)
  have call: "CallToolByName server_init ''weather'' (Some (JObj [])) = (None, Some ''tool not found: weather'')"
    by (simp add: CallToolByName_def server_init_def)
  from unregistered_tool_error_contains_name [OF none, of "Some (JObj [])" req] dec call
  have "sublist ''weather'' ''tool not found: weather''"
    by simp
  moreover have "httpHandler server_init (Inr req) =
        HttpJSON \<lparr>resp_JsonRPC = ''2.0'', resp_ID = 5, resp_Result = None,
                  resp_Error = Some \<lparr>err_Code = - 32601, err_Message = ''tool not found: weather''\<rparr>\<rparr>"
    using dec call by (simp add: httpHandler_switch store_tool_outcome_def req_def)
  moreover have "wsHandler_body server_init req =
        \<lparr>resp_JsonRPC = ''2.0'', resp_ID = 5, resp_Result = None,
         resp_Error = Some \<lparr>err_Code = - 32601, err_Message = ''tool not found: weather''\<rparr>\<rparr>"
    using dec call by (simp add: wsHandler_body_switch store_tool_outcome_def req_def)
  ultimately show ?thesis
    using none dec call unfolding req_def Let_def by blast
qed

section \<open>Request ids of a client\<close>













section \<open>The parser of the event stream\<close>




text \<open>
  Two consequences of reading with \<open>ReadBytes\<close> and trimming before the prefix test: a
  line \<^verbatim>\<open>data: \<close> with nothing or only blanks after it loses its final blank and is no
  payload line, and a last line that no line feed ends is dropped with the read error.
\<close>

lemma empty_payload_line_is_no_payload_line:
  "ListenSSE_loop (stream_of [''event: update'', ''data: '', ''data:   ''] []) [] = []"
  by (simp add: stream_of_def ListenSSE_loop.simps TrimSpace_def spaces_def Let_def)

lemma unfinished_last_line_is_dropped:
  "ListenSSE_loop (stream_of [''event: update''] ''data: {\"a\":1}'') [] = []"
  by (simp add: stream_of_def ListenSSE_loop.simps TrimSpace_def spaces_def Let_def)



section \<open>Operations the transport of a unified client lacks\<close>

text \<open>
  C7. On a client in mode \<^verbatim>\<open>sse\<close> the four RPC operations, and on a client in mode
  \<^verbatim>\<open>http\<close> or \<^verbatim>\<open>ws\<close> the subscription, return the mismatch error at once: the client is
  unchanged and the list of network actions is empty. The same holds for the methods of
  the three transports that the facade would have delegated to.
\<close>
theorem unsupported_operation_fails_without_io:
  "(mode c = ''sse'' \<longrightarrow>
      UnifiedClient_Call e c method args result =
        (c, Returned None (Some ''SSE client does not support RPC calls''), [])
    \<and> UnifiedClient_CallTool e c method args result =
        (c, Returned None (Some ''SSE client does not support RPC calls''), [])
    \<and> UnifiedClient_ServerInfo e c =
        (c, Returned None (Some ''SSE client does not support RPC calls''), [])
    \<and> UnifiedClient_ServerToolsList e c =
        (c, Returned None (Some ''SSE client does not support RPC calls''), []))
   \<and> (mode c = ''http'' \<longrightarrow>
        UnifiedClient_WatchEvents e c =
          ([], Returned None (Some ''HTTP client does not support SSE''), []))
   \<and> (mode c = ''ws'' \<longrightarrow>
        UnifiedClient_WatchEvents e c =
          ([], Returned None (Some ''WebSocket client does not support SSE''), []))
   \<and> SSEClient_Call s method args result =
        (Returned None (Some ''SSE client does not support RPC calls''), [])
   \<and> SSEClient_CallTool s method args result =
        (Returned None (Some ''SSE client does not support RPC calls''), [])
   \<and> HTTPClient_ListenSSE h = ([], Returned None (Some ''HTTP client does not support SSE''), [])
   \<and> WSClient_ListenSSE w = ([], Returned None (Some ''WebSocket client does not support SSE''), [])
   \<and> {''SSE client does not support RPC calls'', ''HTTP client does not support SSE'',
       ''WebSocket client does not support SSE''} \<subseteq> capability_mismatch"
  by (simp add: UnifiedClient_Call_def UnifiedClient_CallTool_def UnifiedClient_ServerInfo_def
      UnifiedClient_ServerToolsList_def UnifiedClient_WatchEvents_def SSEClient_Call_def
      SSEClient_CallTool_def HTTPClient_ListenSSE_def WSClient_ListenSSE_def capability_mismatch_def)

theorem unsupported_operation_witness:
  "let e = \<lparr>http_do = (\<lambda>url req. HttpDoError ''down''), ws_dial = (\<lambda>url. Inr 0),
             ws_exchange = (\<lambda>req. WsWriteError ''down''), sse_get = (\<lambda>url. SseDoError ''down''),
             unmarshal_info = (\<lambda>raw. (\<lparr>info_Name = [], info_Version = [], info_Tools = []\<rparr>, None)),
             unmarshal_list = (\<lambda>raw. (\<lparr>list_Tools = []\<rparr>, None))\<rparr>;
       c1 = NewUnifiedClientSSE ''http://localhost:8074/sse'';
       c2 = NewUnifiedClientHTTP ''http://localhost:8074/mcp'';
       c3 = \<lparr>mode = ''ws'', http = None,
             ws = Some \<lparr>ws_URL = ''ws://localhost:8074/ws'', ws_conn = Some 0, ws_counter = 0\<rparr>,
             sse = None\<rparr>
   in mode c1 = ''sse'' \<and> mode c2 = ''http'' \<and> mode c3 = ''ws''
    \<and> fst (NewUnifiedClientWS e ''ws://localhost:8074/ws'') = Inr c3
    \<and> UnifiedClient_Call e c1 ''tools.list'' (JObj []) (None :: unit target option) =
        (c1, Returned None (Some ''SSE client does not support RPC calls''), [])
    \<and> UnifiedClient_ServerInfo e c1 =
        (c1, Returned None (Some ''SSE client does not support RPC calls''), [])
    \<and> UnifiedClient_WatchEvents e c2 =
        ([], Returned None (Some ''HTTP client does not support SSE''), [])
    \<and> UnifiedClient_WatchEvents e c3 =
        ([], Returned None (Some ''WebSocket client does not support SSE''), [])"
proof -
  define e where "e = \<lparr>http_do = (\<lambda>url req. HttpDoError ''down''), ws_dial = (\<lambda>url. Inr 0),
             ws_exchange = (\<lambda>req. WsWriteError ''down''), sse_get = (\<lambda>url. SseDoError ''down''),
             unmarshal_info = (\<lambda>raw. (\<lparr>info_Name = [], info_Version = [], info_Tools = []\<rparr>, None)),
             unmarshal_list = (\<lambda>raw. (\<lparr>list_Tools = []\<rparr>, None))\<rparr>"
  define c1 where "c1 = NewUnifiedClientSSE ''http://localhost:8074/sse''"
  define c2 where "c2 = NewUnifiedClientHTTP ''http://localhost:8074/mcp''"
  define c3 where "c3 = \<lparr>mode = ''ws'', http = None,
             ws = Some \<lparr>ws_URL = ''ws://localhost:8074/ws'', ws_conn = Some 0, ws_counter = 0\<rparr>,
             sse = None\<rparr>"
  have m: "mode c1 = ''sse''" "mode c2 = ''http''" "mode c3 = ''ws''"
    by (simp_all add: c1_def c2_def c3_def NewUnifiedClientSSE_def NewUnifiedClientHTTP_def)
  have d: "fst (NewUnifiedClientWS e ''ws://localhost:8074/ws'') = Inr c3"
    by (simp add: NewUnifiedClientWS_def NewWSClient_def e_def c3_def)
  have "UnifiedClient_Call e c1 ''tools.list'' (JObj []) (None :: unit target option) =
        (c1, Returned None (Some ''SSE client does not support RPC calls''), [])
    \<and> UnifiedClient_ServerInfo e c1 =
        (c1, Returned None (Some ''SSE client does not support RPC calls''), [])"
    using unsupported_operation_fails_without_io [of c1 e "''tools.list''" "JObj []" "None :: unit target option"] m(1)
    by simp
  moreover have "UnifiedClient_WatchEvents e c2 =
        ([], Returned None (Some ''HTTP client does not support SSE''), [])"
    using unsupported_operation_fails_without_io [of c2 e _ _ "None :: unit target option"] m(2) by simp
  moreover have "UnifiedClient_WatchEvents e c3 =
        ([], Returned None (Some ''WebSocket client does not support SSE''), [])"
    using unsupported_operation_fails_without_io [of c3 e _ _ "None :: unit target option"] m(3) by simp
  ultimately show ?thesis
    using m d unfolding e_def c1_def c2_def c3_def Let_def by blast
qed

section \<open>Locks of the registries\<close>

text \<open>
  C5. The functions of the resource and of the prompt registry access their map under
  the registry's lock, and no admissible schedule of two of them has a race. The
  functions of the tool registry take no lock at all: none of them is guarded, and a
  lookup (or an enumeration, or a second registration) can run while a registration is
  storing its entry.
\<close>
theorem tool_registry_has_no_lock:
  "guarded Free RegisterResource_steps \<and> guarded Free GetResource_steps
   \<and> guarded Free ListResources_steps
   \<and> guarded Free RegisterPrompt_steps \<and> guarded Free GetPrompt_steps
   \<and> guarded Free ListPrompts_steps
   \<and> race_free RegisterResource_steps GetResource_steps
   \<and> race_free RegisterResource_steps ListResources_steps
   \<and> race_free RegisterResource_steps RegisterResource_steps
   \<and> race_free RegisterPrompt_steps GetPrompt_steps
   \<and> race_free RegisterPrompt_steps ListPrompts_steps
   \<and> race_free RegisterPrompt_steps RegisterPrompt_steps
   \<and> \<not> guarded Free RegisterTool_steps \<and> \<not> guarded Free CallToolByName_steps
   \<and> \<not> guarded Free ListTools_steps
   \<and> \<not> race_free RegisterTool_steps CallToolByName_steps
   \<and> \<not> race_free RegisterTool_steps ListTools_steps
   \<and> \<not> race_free RegisterTool_steps RegisterTool_steps
   \<and> admissible (0, False)
        [(False, Begin Store), (True, Begin Lookup), (True, End Lookup), (False, End Store)]
   \<and> race (\<lambda>g. None)
        [(False, Begin Store), (True, Begin Lookup), (True, End Lookup), (False, End Store)]
   \<and> [(False, Begin Store), (True, Begin Lookup), (True, End Lookup), (False, End Store)]
        \<in> set (schedules RegisterTool_steps CallToolByName_steps)"
  by (simp add: race_free_def schedules_def RegisterResource_steps_def GetResource_steps_def
      ListResources_steps_def RegisterPrompt_steps_def GetPrompt_steps_def ListPrompts_steps_def
      RegisterTool_steps_def CallToolByName_steps_def ListTools_steps_def)

end
